theory Spec2Isabelle
  imports Main
begin

section \<open>The credential-rotating pool manager of RdsIamAuth.js\<close>

text \<open>
  A shallow embedding of the class \<open>RdsIamAuthManager\<close> (file RdsIamAuth.js). Each
  async method is a function that takes the outside world and the manager object and
  returns its result (an error, where the JavaScript throws or rejects) together with the
  new world and the new manager. A method function runs its call from start to end;
  \<open>run\<close> makes calls one after another. Two rotations that overlap in time are
  modelled apart, stretch by stretch between the \<open>await\<close> points of \<open>refreshPool\<close>.

  Everything the class does not decide itself comes from an environment: the two
  environment variables the methods read, the clock, the signing service and the
  mysql2 driver. Each collaborator is a function of the number of calls of that kind made
  so far, so any finite run of the program is the run under some environment. The host,
  port, user and pool-size settings are passed through to the driver unchanged and are
  left out. The text printed after a log message (the formatted expiry date, the value
  of the environment variable) is not part of the model; the error object handed to
  \<open>console.error\<close> is. A clock reading is a natural number, the milliseconds since
  the epoch, taken to stay in the range in which JavaScript can format a date.
\<close>

subsection \<open>Data\<close>

text \<open>A JavaScript \<open>Error\<close> value, identified by its message.\<close>

datatype error = Error string

definition NotInitializedError :: error where
  "NotInitializedError = Error ''Connection pool not initialized. Call initialize() first.''"

text \<open>
  The options object handed to \<open>mysql.createPool\<close>: the password, and the token the
  \<open>mysql_clear_password\<close> plugin returns on each connect (absent in password mode).
\<close>

record pool_options =
  password :: "string option"
  authPlugins :: "string option"

text \<open>A pool object: its identity (the index of the createPool call that made it) and
  the options it was constructed with.\<close>

record pool =
  pool_id :: nat
  options :: pool_options

type_synonym connection = nat
type_synonym results = "string list"

record env =
  USE_IAM_AUTH :: "string option"
  DB_PWD :: "string option"
  Date_now :: "nat \<Rightarrow> nat"
  getAuthToken :: "nat \<Rightarrow> error + string"
  mysql_createPool :: "nat \<Rightarrow> pool_options \<Rightarrow> error option"
  pool_end :: "nat \<Rightarrow> pool \<Rightarrow> error option"
  pool_getConnection :: "nat \<Rightarrow> pool \<Rightarrow> error + connection"
  pool_query :: "nat \<Rightarrow> pool \<Rightarrow> string \<Rightarrow> string list \<Rightarrow> error + results"

text \<open>What the manager does to the outside, in the order it does it.\<close>

datatype event =
    ConsoleLog string
  | ConsoleError string error
  | DateNow
  | SignerGetAuthToken
  | MysqlCreatePool pool_options
  | PoolOn pool string
  | PoolEnd pool
  | PoolGetConnection pool
  | ConnectionRelease connection
  | PoolQuery pool string "string list"
  | SetInterval nat nat
  | ClearInterval nat

text \<open>
  The outside world: the events so far, how many calls of each kind were made, the pools
  whose \<open>end()\<close> has completed, and the interval timers that are armed (handle and
  period in milliseconds).
\<close>

record world =
  trace :: "event list"
  clock_reads :: nat
  signer_calls :: nat
  createPool_calls :: nat
  end_calls :: nat
  getConnection_calls :: nat
  query_calls :: nat
  timers_created :: nat
  ended :: "pool list"
  timers :: "(nat \<times> nat) list"

text \<open>The fields the constructor sets to \<open>null\<close>.\<close>

record manager =
  pool :: "pool option"
  tokenRefreshInterval :: "nat option"
  currentToken :: "string option"
  tokenExpiryTime :: "int option"

definition constructor :: manager where
  "constructor = \<lparr>pool = None, tokenRefreshInterval = None,
                   currentToken = None, tokenExpiryTime = None\<rparr>"

definition world0 :: world where
  "world0 = \<lparr>trace = [], clock_reads = 0, signer_calls = 0, createPool_calls = 0,
              end_calls = 0, getConnection_calls = 0, query_calls = 0,
              timers_created = 0, ended = [], timers = []\<rparr>"

subsection \<open>Calls to the outside\<close>

definition emit :: "event \<Rightarrow> world \<Rightarrow> world" where
  "emit e w = w\<lparr>trace := trace w @ [e]\<rparr>"

definition console_log :: "string \<Rightarrow> world \<Rightarrow> world" where
  "console_log msg w = emit (ConsoleLog msg) w"

definition console_error :: "string \<Rightarrow> error \<Rightarrow> world \<Rightarrow> world" where
  "console_error msg e w = emit (ConsoleError msg e) w"

text \<open>\<open>process.env.USE_IAM_AUTH === 'true'\<close>\<close>

definition iam_enabled :: "env \<Rightarrow> bool" where
  "iam_enabled env = (USE_IAM_AUTH env = Some ''true'')"

text \<open>\<open>Date.now()\<close>: milliseconds since the epoch.\<close>

definition date_now :: "env \<Rightarrow> world \<Rightarrow> nat \<times> world" where
  "date_now env w =
     (Date_now env (clock_reads w), emit DateNow (w\<lparr>clock_reads := Suc (clock_reads w)\<rparr>))"

text \<open>\<open>await this.signer.getAuthToken()\<close>\<close>

definition signer_getAuthToken :: "env \<Rightarrow> world \<Rightarrow> (error + string) \<times> world" where
  "signer_getAuthToken env w =
     (getAuthToken env (signer_calls w),
      emit SignerGetAuthToken (w\<lparr>signer_calls := Suc (signer_calls w)\<rparr>))"

text \<open>\<open>mysql.createPool(poolOptions)\<close>: throws or returns a new pool object.\<close>

definition driver_createPool :: "env \<Rightarrow> world \<Rightarrow> pool_options \<Rightarrow> (error + pool) \<times> world" where
  "driver_createPool env w opts =
     (let w1 = emit (MysqlCreatePool opts) (w\<lparr>createPool_calls := Suc (createPool_calls w)\<rparr>)
      in case mysql_createPool env (createPool_calls w) opts of
           Some e \<Rightarrow> (Inl e, w1)
         | None \<Rightarrow> (Inr \<lparr>pool_id = createPool_calls w, options = opts\<rparr>, w1))"

text \<open>\<open>await pool.end()\<close>: a pool is recorded as ended when the call resolves.\<close>

definition driver_end :: "env \<Rightarrow> world \<Rightarrow> pool \<Rightarrow> error option \<times> world" where
  "driver_end env w p =
     (let w1 = emit (PoolEnd p) (w\<lparr>end_calls := Suc (end_calls w)\<rparr>)
      in case pool_end env (end_calls w) p of
           Some e \<Rightarrow> (Some e, w1)
         | None \<Rightarrow> (None, w1\<lparr>ended := ended w1 @ [p]\<rparr>))"

text \<open>\<open>await pool.getConnection()\<close>\<close>

definition driver_getConnection :: "env \<Rightarrow> world \<Rightarrow> pool \<Rightarrow> (error + connection) \<times> world" where
  "driver_getConnection env w p =
     (pool_getConnection env (getConnection_calls w) p,
      emit (PoolGetConnection p) (w\<lparr>getConnection_calls := Suc (getConnection_calls w)\<rparr>))"

text \<open>\<open>await pool.query(sql, params)\<close>\<close>

definition driver_query ::
  "env \<Rightarrow> world \<Rightarrow> pool \<Rightarrow> string \<Rightarrow> string list \<Rightarrow> (error + results) \<times> world" where
  "driver_query env w p sql params =
     (pool_query env (query_calls w) p sql params,
      emit (PoolQuery p sql params) (w\<lparr>query_calls := Suc (query_calls w)\<rparr>))"

text \<open>\<open>setInterval(callback, ms)\<close> returns a fresh handle and arms the timer.\<close>

definition setInterval :: "nat \<Rightarrow> world \<Rightarrow> nat \<times> world" where
  "setInterval ms w =
     (timers_created w,
      emit (SetInterval (timers_created w) ms)
        (w\<lparr>timers_created := Suc (timers_created w),
           timers := timers w @ [(timers_created w, ms)]\<rparr>))"

definition clearInterval :: "nat \<Rightarrow> world \<Rightarrow> world" where
  "clearInterval h w =
     emit (ClearInterval h) (w\<lparr>timers := filter (\<lambda>t. fst t \<noteq> h) (timers w)\<rparr>)"

subsection \<open>The methods\<close>

text \<open>
  \<open>generateAuthToken\<close>: the signing call comes first; only when it resolves are
  \<open>currentToken\<close> and \<open>tokenExpiryTime\<close> (now + 14 minutes) stored.
\<close>

definition generateAuthToken :: "env \<Rightarrow> world \<Rightarrow> manager \<Rightarrow> (error + string) \<times> world \<times> manager" where
  "generateAuthToken env w m =
     (let w1 = console_log ''Generating new RDS IAM authentication token...'' w
      in case signer_getAuthToken env w1 of
           (Inl e, w2) \<Rightarrow> (Inl e, w2, m)
         | (Inr token, w2) \<Rightarrow>
             (let m1 = m\<lparr>currentToken := Some token\<rparr>;
                  (now, w3) = date_now env w2;
                  m2 = m1\<lparr>tokenExpiryTime := Some (int now + 14 * 60 * 1000)\<rparr>;
                  w4 = console_log ''New token generated, expires at:'' w3
              in (Inr token, w4, m2)))"

text \<open>
  \<open>isTokenExpired\<close>: \<open>!this.tokenExpiryTime\<close> holds for \<open>null\<close> and for the number 0;
  the clock is read only past that test.
\<close>

definition isTokenExpired :: "env \<Rightarrow> world \<Rightarrow> manager \<Rightarrow> bool \<times> world" where
  "isTokenExpired env w m =
     (case tokenExpiryTime m of
        None \<Rightarrow> (True, w)
      | Some t \<Rightarrow>
          if t = 0 then (True, w)
          else (let (now, w1) = date_now env w in (int now \<ge> t - 60000, w1)))"

text \<open>The tail of \<open>createPool\<close>, shared by its two branches: log, construct, attach the
  three listeners.\<close>

definition construct_pool :: "env \<Rightarrow> world \<Rightarrow> pool_options \<Rightarrow> (error + pool) \<times> world" where
  "construct_pool env w opts =
     (let w1 = console_log ''Creating new connection pool...'' w
      in case driver_createPool env w1 opts of
           (Inl e, w2) \<Rightarrow> (Inl e, w2)
         | (Inr p, w2) \<Rightarrow>
             (Inr p, emit (PoolOn p ''enqueue'')
                       (emit (PoolOn p ''release'') (emit (PoolOn p ''acquire'') w2))))"

text \<open>
  \<open>createPool(token = null)\<close>: with IAM authentication a falsy token (\<open>null\<close> or the
  empty string) is replaced by a newly generated one.
\<close>

definition createPool ::
  "env \<Rightarrow> world \<Rightarrow> manager \<Rightarrow> string option \<Rightarrow> (error + pool) \<times> world \<times> manager" where
  "createPool env w m token =
     (if iam_enabled env then
        (case (case token of
                 None \<Rightarrow> generateAuthToken env w m
               | Some t \<Rightarrow> if t = [] then generateAuthToken env w m else (Inr t, w, m)) of
           (Inl e, w1, m1) \<Rightarrow> (Inl e, w1, m1)
         | (Inr tok, w1, m1) \<Rightarrow>
             (case construct_pool env w1 \<lparr>password = Some tok, authPlugins = Some tok\<rparr> of
                (r, w2) \<Rightarrow> (r, w2, m1)))
      else
        (case construct_pool env w \<lparr>password = DB_PWD env, authPlugins = None\<rparr> of
           (r, w2) \<Rightarrow> (r, w2, m)))"

text \<open>The \<open>try\<close> block of \<open>refreshPool\<close>: new token, then end the old pool, then create
  the new pool and store it.\<close>

definition refreshPool_try :: "env \<Rightarrow> world \<Rightarrow> manager \<Rightarrow> (error + unit) \<times> world \<times> manager" where
  "refreshPool_try env w m =
     (case generateAuthToken env w m of
        (Inl e, w1, m1) \<Rightarrow> (Inl e, w1, m1)
      | (Inr newToken, w1, m1) \<Rightarrow>
          (case (case pool m1 of
                   None \<Rightarrow> (None, w1)
                 | Some p \<Rightarrow> driver_end env (console_log ''Closing old connection pool...'' w1) p) of
             (Some e, w2) \<Rightarrow> (Inl e, w2, m1)
           | (None, w2) \<Rightarrow>
               (case createPool env w2 m1 (Some newToken) of
                  (Inl e, w3, m3) \<Rightarrow> (Inl e, w3, m3)
                | (Inr p', w3, m3) \<Rightarrow>
                    (Inr (), console_log ''Connection pool refreshed successfully'' w3,
                     m3\<lparr>pool := Some p'\<rparr>))))"

text \<open>\<open>refreshPool\<close>: the \<open>catch\<close> logs the error and throws it again.\<close>

definition refreshPool :: "env \<Rightarrow> world \<Rightarrow> manager \<Rightarrow> (error + unit) \<times> world \<times> manager" where
  "refreshPool env w m =
     (case refreshPool_try env (console_log ''Refreshing connection pool...'' w) m of
        (Inl e, w1, m1) \<Rightarrow> (Inl e, console_error ''Error refreshing connection pool:'' e w1, m1)
      | (Inr u, w1, m1) \<Rightarrow> (Inr u, w1, m1))"

text \<open>The callback \<open>initialize\<close> hands to \<open>setInterval\<close>: one scheduled tick.\<close>

definition refresh_tick :: "env \<Rightarrow> world \<Rightarrow> manager \<Rightarrow> (error + unit) \<times> world \<times> manager" where
  "refresh_tick env w m =
     (case refreshPool env w m of
        (Inl e, w1, m1) \<Rightarrow> (Inr (), console_error ''Failed to refresh pool:'' e w1, m1)
      | (Inr u, w1, m1) \<Rightarrow> (Inr (), w1, m1))"

text \<open>The \<open>try\<close> block of \<open>initialize\<close>.\<close>

definition initialize_try :: "env \<Rightarrow> world \<Rightarrow> manager \<Rightarrow> (error + unit) \<times> world \<times> manager" where
  "initialize_try env w m =
     (case createPool env w m None of
        (Inl e, w1, m1) \<Rightarrow> (Inl e, w1, m1)
      | (Inr p, w1, m1) \<Rightarrow>
          (let m2 = m1\<lparr>pool := Some p\<rparr>
           in case driver_getConnection env w1 p of
                (Inl e, w2) \<Rightarrow> (Inl e, w2, m2)
              | (Inr c, w2) \<Rightarrow>
                  (let w3 = emit (ConnectionRelease c)
                              (console_log ''Database connection test successful'' w2)
                   in if iam_enabled env then
                        (let refreshInterval = 13 * 60 * 1000;
                             (h, w4) = setInterval refreshInterval w3;
                             m3 = m2\<lparr>tokenRefreshInterval := Some h\<rparr>;
                             w5 = console_log ''Token refresh scheduled every 780 seconds'' w4
                         in (Inr (), console_log ''RDS IAM Auth Manager initialized successfully'' w5, m3))
                      else
                        (Inr (), console_log ''RDS IAM Auth Manager initialized successfully'' w3, m2))))"

definition initialize :: "env \<Rightarrow> world \<Rightarrow> manager \<Rightarrow> (error + unit) \<times> world \<times> manager" where
  "initialize env w m =
     (let w0 = console_log ''USE_IAM_AUTH:''
                 (console_log ''Initializing RDS IAM Auth Manager...'' w)
      in case initialize_try env w0 m of
           (Inl e, w1, m1) \<Rightarrow>
             (Inl e, console_error ''Failed to initialize RDS IAM Auth Manager:'' e w1, m1)
         | (Inr u, w1, m1) \<Rightarrow> (Inr u, w1, m1))"

text \<open>
  \<open>getConnection\<close>: no pool is an error; with IAM authentication an expired token
  forces a rotation first (the \<open>&&\<close> evaluates \<open>isTokenExpired\<close> only when the mode
  test holds); then \<open>this.pool\<close> is read again and the call is handed to it. Were
  \<open>this.pool\<close> null at that point, the member access would throw a TypeError.
\<close>

definition getConnection :: "env \<Rightarrow> world \<Rightarrow> manager \<Rightarrow> (error + connection) \<times> world \<times> manager" where
  "getConnection env w m =
     (case pool m of
        None \<Rightarrow> (Inl NotInitializedError, w, m)
      | Some _ \<Rightarrow>
          (case (if iam_enabled env then
                   (case isTokenExpired env w m of
                      (True, w1) \<Rightarrow>
                        refreshPool env (console_log ''Token expired, refreshing pool...'' w1) m
                    | (False, w1) \<Rightarrow> (Inr (), w1, m))
                 else (Inr (), w, m)) of
             (Inl e, w2, m2) \<Rightarrow> (Inl e, w2, m2)
           | (Inr u, w2, m2) \<Rightarrow>
               (case pool m2 of
                  None \<Rightarrow> (Inl (Error ''TypeError''), w2, m2)
                | Some p \<Rightarrow>
                    (case driver_getConnection env w2 p of (r, w3) \<Rightarrow> (r, w3, m2)))))"

text \<open>\<open>query(sql, params = [])\<close>: the same guard, then \<open>this.pool.query\<close>.\<close>

definition query ::
  "env \<Rightarrow> world \<Rightarrow> manager \<Rightarrow> string \<Rightarrow> string list \<Rightarrow> (error + results) \<times> world \<times> manager" where
  "query env w m sql params =
     (case pool m of
        None \<Rightarrow> (Inl NotInitializedError, w, m)
      | Some _ \<Rightarrow>
          (case (if iam_enabled env then
                   (case isTokenExpired env w m of
                      (True, w1) \<Rightarrow>
                        refreshPool env (console_log ''Token expired, refreshing pool...'' w1) m
                    | (False, w1) \<Rightarrow> (Inr (), w1, m))
                 else (Inr (), w, m)) of
             (Inl e, w2, m2) \<Rightarrow> (Inl e, w2, m2)
           | (Inr u, w2, m2) \<Rightarrow>
               (case pool m2 of
                  None \<Rightarrow> (Inl (Error ''TypeError''), w2, m2)
                | Some p \<Rightarrow>
                    (case driver_query env w2 p sql params of (r, w3) \<Rightarrow> (r, w3, m2)))))"

text \<open>\<open>shutdown\<close>: the timer first, then the pool; nothing catches a failing \<open>end()\<close>.\<close>

definition shutdown :: "env \<Rightarrow> world \<Rightarrow> manager \<Rightarrow> (error + unit) \<times> world \<times> manager" where
  "shutdown env w m =
     (let w0 = console_log ''Shutting down RDS IAM Auth Manager...'' w;
          (w1, m1) = (case tokenRefreshInterval m of
                        None \<Rightarrow> (w0, m)
                      | Some h \<Rightarrow> (clearInterval h w0, m\<lparr>tokenRefreshInterval := None\<rparr>))
      in case pool m1 of
           None \<Rightarrow> (Inr (), console_log ''RDS IAM Auth Manager shut down successfully'' w1, m1)
         | Some p \<Rightarrow>
             (case driver_end env w1 p of
                (Some e, w2) \<Rightarrow> (Inl e, w2, m1)
              | (None, w2) \<Rightarrow>
                  (Inr (), console_log ''RDS IAM Auth Manager shut down successfully'' w2,
                   m1\<lparr>pool := None\<rparr>)))"

subsection \<open>Runs of the manager\<close>

text \<open>
  The calls a client (or the timer) can make on the one manager object, and the state a
  sequence of them leaves behind. A call that throws still leaves its state changes.
\<close>

datatype call =
    Initialize
  | RefreshPool
  | Tick
  | GetConnection
  | Query string "string list"
  | Shutdown

fun perform :: "env \<Rightarrow> call \<Rightarrow> world \<times> manager \<Rightarrow> world \<times> manager" where
  "perform env Initialize (w, m) = snd (initialize env w m)"
| "perform env RefreshPool (w, m) = snd (refreshPool env w m)"
| "perform env Tick (w, m) = snd (refresh_tick env w m)"
| "perform env GetConnection (w, m) = snd (getConnection env w m)"
| "perform env (Query sql params) (w, m) = snd (query env w m sql params)"
| "perform env Shutdown (w, m) = snd (shutdown env w m)"

fun run :: "env \<Rightarrow> call list \<Rightarrow> world \<times> manager \<Rightarrow> world \<times> manager" where
  "run env [] s = s"
| "run env (c # cs) s = run env cs (perform env c s)"

text \<open>The number of rotations started so far: \<open>refreshPool\<close> announces each one, first
  thing, on the log.\<close>

definition rotations :: "world \<Rightarrow> nat" where
  "rotations w = count_list (trace w) (ConsoleLog ''Refreshing connection pool...'')"

text \<open>\<open>a\<close> occurs in the list, and \<open>b\<close> occurs somewhere after its first occurrence.\<close>

definition precedes :: "'a \<Rightarrow> 'a \<Rightarrow> 'a list \<Rightarrow> bool" where
  "precedes a b xs = (b \<in> set (drop 1 (dropWhile (\<lambda>x. x \<noteq> a) xs)))"

text \<open>
  The invariant of the manager state: with IAM authentication, a manager that holds a
  pool holds a token, and that token is the password the pool was constructed with.
\<close>

definition credential_invariant :: "env \<Rightarrow> manager \<Rightarrow> bool" where
  "credential_invariant env m =
     (case pool m of
        None \<Rightarrow> True
      | Some p \<Rightarrow>
          iam_enabled env \<longrightarrow>
            (case currentToken m of
               None \<Rightarrow> False
             | Some tok \<Rightarrow> password (options p) = Some tok))"

subsection \<open>Rotations that overlap\<close>

text \<open>
  \<open>refreshPool\<close> is an async method: it gives up control at
  \<open>await this.signer.getAuthToken()\<close> and at \<open>await this.pool.end()\<close>, and other pending
  calls on the same manager run in between. A rotation in flight is at one of these
  points: not yet started; waiting for the signer, with what that promise settles to;
  waiting for \<open>end()\<close>, holding \<open>newToken\<close>, with what that promise settles to; or
  finished with its result.
\<close>

datatype phase =
    Start
  | AwaitToken "error + string"
  | AwaitEnd string "error option"
  | Finished "error + unit"

text \<open>The last stretch of \<open>refreshPool\<close>: \<open>createPool(newToken)\<close>, the assignment to
  \<open>this.pool\<close> and the closing log line, or the \<open>catch\<close>. (The signing call that
  \<open>createPool\<close> makes for a falsy token is kept inside this stretch.)\<close>

definition rotation_install ::
  "env \<Rightarrow> world \<Rightarrow> manager \<Rightarrow> string \<Rightarrow> (world \<times> manager) \<times> phase" where
  "rotation_install env w m newToken =
     (case createPool env w m (Some newToken) of
        (Inl e, w1, m1) \<Rightarrow>
          ((console_error ''Error refreshing connection pool:'' e w1, m1), Finished (Inl e))
      | (Inr p', w1, m1) \<Rightarrow>
          ((console_log ''Connection pool refreshed successfully'' w1, m1\<lparr>pool := Some p'\<rparr>),
           Finished (Inr ())))"

text \<open>
  One stretch of a rotation, from where it stands to its next \<open>await\<close> (or its end), on
  the manager as it is at that moment. From \<open>Start\<close>: the two log lines and the signing
  call. With the token: the rest of \<open>generateAuthToken\<close>, then \<open>this.pool\<close> is read and
  its \<open>end()\<close> called. With \<open>end()\<close> resolved: the last stretch. A rejected promise
  goes to the \<open>catch\<close> of \<open>refreshPool\<close>.
\<close>

fun rotation_step :: "env \<Rightarrow> (world \<times> manager) \<times> phase \<Rightarrow> (world \<times> manager) \<times> phase" where
  "rotation_step env ((w, m), Start) =
     (let w1 = console_log ''Generating new RDS IAM authentication token...''
                 (console_log ''Refreshing connection pool...'' w)
      in case signer_getAuthToken env w1 of (r, w2) \<Rightarrow> ((w2, m), AwaitToken r))"
| "rotation_step env ((w, m), AwaitToken (Inl e)) =
     ((console_error ''Error refreshing connection pool:'' e w, m), Finished (Inl e))"
| "rotation_step env ((w, m), AwaitToken (Inr token)) =
     (let m1 = m\<lparr>currentToken := Some token\<rparr>;
          (now, w1) = date_now env w;
          m2 = m1\<lparr>tokenExpiryTime := Some (int now + 14 * 60 * 1000)\<rparr>;
          w2 = console_log ''New token generated, expires at:'' w1
      in case pool m2 of
           None \<Rightarrow> rotation_install env w2 m2 token
         | Some p \<Rightarrow>
             (case driver_end env (console_log ''Closing old connection pool...'' w2) p of
                (r, w3) \<Rightarrow> ((w3, m2), AwaitEnd token r)))"
| "rotation_step env ((w, m), AwaitEnd newToken (Some e)) =
     ((console_error ''Error refreshing connection pool:'' e w, m), Finished (Inl e))"
| "rotation_step env ((w, m), AwaitEnd newToken None) = rotation_install env w m newToken"
| "rotation_step env ((w, m), Finished r) = ((w, m), Finished r)"

text \<open>
  Several rotations in flight on one manager, and a schedule: each number says which of
  them runs its next stretch. A number that names no rotation is skipped.
\<close>

fun interleave ::
  "env \<Rightarrow> nat list \<Rightarrow> (world \<times> manager) \<times> phase list \<Rightarrow> (world \<times> manager) \<times> phase list" where
  "interleave env [] s = s"
| "interleave env (i # is) (s, ps) =
     (if i < length ps then
        (case rotation_step env (s, ps ! i) of
           (s', p') \<Rightarrow> interleave env is (s', ps[i := p']))
      else interleave env is (s, ps))"

subsection \<open>An example deployment\<close>

text \<open>
  A token-mode deployment in which every collaborator succeeds: the signer hands out
  \<open>token-0\<close> on its first call and \<open>token-1\<close> afterwards, and the clock advances one
  second per reading. \<open>demo_world\<close> and \<open>demo_manager\<close> are the state that
  \<open>initialize\<close> leaves behind there, \<open>demo_pool\<close> the pool it installs.
\<close>

definition demo_env :: env where
  "demo_env = \<lparr>USE_IAM_AUTH = Some ''true'', DB_PWD = None,
     Date_now = (\<lambda>n. 1700000000000 + 1000 * n),
     getAuthToken = (\<lambda>n. Inr (if n = 0 then ''token-0'' else ''token-1'')),
     mysql_createPool = (\<lambda>n opts. None),
     pool_end = (\<lambda>n p. None),
     pool_getConnection = (\<lambda>n p. Inr 1),
     pool_query = (\<lambda>n p sql ps. Inr [''row''])\<rparr>"

definition demo_pool :: pool where
  "demo_pool = \<lparr>pool_id = 0,
                 options = \<lparr>password = Some ''token-0'', authPlugins = Some ''token-0''\<rparr>\<rparr>"

definition demo_world :: world where
  "demo_world =
     \<lparr>trace =
        [ConsoleLog ''Initializing RDS IAM Auth Manager...'',
         ConsoleLog ''USE_IAM_AUTH:'',
         ConsoleLog ''Generating new RDS IAM authentication token...'',
         SignerGetAuthToken, DateNow,
         ConsoleLog ''New token generated, expires at:'',
         ConsoleLog ''Creating new connection pool...'',
         MysqlCreatePool \<lparr>password = Some ''token-0'', authPlugins = Some ''token-0''\<rparr>,
         PoolOn demo_pool ''acquire'', PoolOn demo_pool ''release'',
         PoolOn demo_pool ''enqueue'',
         PoolGetConnection demo_pool,
         ConsoleLog ''Database connection test successful'',
         ConnectionRelease 1, SetInterval 0 780000,
         ConsoleLog ''Token refresh scheduled every 780 seconds'',
         ConsoleLog ''RDS IAM Auth Manager initialized successfully''],
      clock_reads = 1, signer_calls = 1, createPool_calls = 1, end_calls = 0,
      getConnection_calls = 1, query_calls = 0, timers_created = 1, ended = [],
      timers = [(0, 780000)]\<rparr>"

definition demo_manager :: manager where
  "demo_manager = \<lparr>pool = Some demo_pool, tokenRefreshInterval = Some 0,
                    currentToken = Some ''token-0'', tokenExpiryTime = Some 1700000840000\<rparr>"

text \<open>The same deployment with a static password, and the pool \<open>initialize\<close> installs
  there.\<close>

definition password_env :: env where
  "password_env = demo_env\<lparr>USE_IAM_AUTH := Some ''false'', DB_PWD := Some ''secret''\<rparr>"

definition password_pool :: pool where
  "password_pool = \<lparr>pool_id = 0, options = \<lparr>password = Some ''secret'', authPlugins = None\<rparr>\<rparr>"

text \<open>
  The token deployment with a signer that hands out \<open>token-0\<close>, \<open>token-1\<close> and then
  \<open>token-2\<close>, and two rotations A (number 0) and B (number 1) that overlap after
  \<open>initialize\<close>, say a timer tick and the rotation of a query on an expired token: A
  calls the signer, B calls the signer, A stores its token and calls \<open>end()\<close>, B stores
  its token and calls \<open>end()\<close>, B's \<open>end()\<close> resolves and B installs its pool, A's
  \<open>end()\<close> resolves and A installs its pool. No collaborator fails.
\<close>

definition three_token_env :: env where
  "three_token_env =
     demo_env\<lparr>getAuthToken := (\<lambda>n. Inr (if n = 0 then ''token-0'' else
                                            if n = 1 then ''token-1'' else ''token-2''))\<rparr>"

definition two_rotations :: "(world \<times> manager) \<times> phase list" where
  "two_rotations =
     interleave three_token_env [0, 1, 0, 1, 1, 0]
       (run three_token_env [Initialize] (world0, constructor), [Start, Start])"

section \<open>Properties\<close>

subsection \<open>What each method leaves untouched\<close>

lemmas prim_defs = Let_def emit_def console_log_def console_error_def date_now_def
  signer_getAuthToken_def driver_createPool_def driver_end_def driver_getConnection_def
  driver_query_def setInterval_def clearInterval_def

lemma rotations_emit [simp]:
  "rotations (emit e w) = rotations w + (if e = ConsoleLog ''Refreshing connection pool...'' then 1 else 0)"
  by (simp add: rotations_def emit_def)

lemma emit_fields [simp]:
  "clock_reads (emit e w) = clock_reads w"
  "signer_calls (emit e w) = signer_calls w"
  "createPool_calls (emit e w) = createPool_calls w"
  "end_calls (emit e w) = end_calls w"
  "getConnection_calls (emit e w) = getConnection_calls w"
  "query_calls (emit e w) = query_calls w"
  "timers_created (emit e w) = timers_created w"
  "ended (emit e w) = ended w"
  "timers (emit e w) = timers w"
  "trace (emit e w) = trace w @ [e]"
  by (simp_all add: emit_def)

lemma generateAuthToken_frame:
  "generateAuthToken env w m = (r, w', m') \<Longrightarrow>
     rotations w' = rotations w \<and> timers w' = timers w \<and> timers_created w' = timers_created w
     \<and> createPool_calls w' = createPool_calls w \<and> end_calls w' = end_calls w
     \<and> query_calls w' = query_calls w \<and> getConnection_calls w' = getConnection_calls w
     \<and> ended w' = ended w
     \<and> pool m' = pool m \<and> tokenRefreshInterval m' = tokenRefreshInterval m"
  by (auto simp: generateAuthToken_def prim_defs rotations_def split: sum.splits)

lemma construct_pool_frame:
  "construct_pool env w opts = (r, w') \<Longrightarrow>
     rotations w' = rotations w \<and> timers w' = timers w \<and> timers_created w' = timers_created w
     \<and> end_calls w' = end_calls w \<and> signer_calls w' = signer_calls w
     \<and> clock_reads w' = clock_reads w
     \<and> query_calls w' = query_calls w \<and> getConnection_calls w' = getConnection_calls w
     \<and> ended w' = ended w \<and> createPool_calls w' = Suc (createPool_calls w)"
  by (auto simp: construct_pool_def prim_defs rotations_def split: option.splits)

lemma construct_pool_Inr:
  "construct_pool env w opts = (Inr p, w') \<Longrightarrow> options p = opts \<and> pool_id p = createPool_calls w"
  by (auto simp: construct_pool_def prim_defs split: option.splits)

lemma createPool_frame:
  "createPool env w m token = (r, w', m') \<Longrightarrow>
     rotations w' = rotations w \<and> timers w' = timers w \<and> timers_created w' = timers_created w
     \<and> end_calls w' = end_calls w
     \<and> query_calls w' = query_calls w \<and> getConnection_calls w' = getConnection_calls w
     \<and> ended w' = ended w \<and> createPool_calls w \<le> createPool_calls w'
     \<and> pool m' = pool m \<and> tokenRefreshInterval m' = tokenRefreshInterval m"
  by (auto simp: createPool_def split: if_splits option.splits sum.splits prod.splits
      dest!: generateAuthToken_frame construct_pool_frame)

lemma createPool_Inr:
  "createPool env w m token = (Inr p, w', m') \<Longrightarrow> createPool_calls w \<le> pool_id p"
  by (auto simp: createPool_def split: if_splits option.splits sum.splits prod.splits
      dest!: generateAuthToken_frame construct_pool_Inr)

lemma driver_end_frame:
  "driver_end env w p = (r, w') \<Longrightarrow>
     rotations w' = rotations w \<and> timers w' = timers w \<and> timers_created w' = timers_created w
     \<and> query_calls w' = query_calls w \<and> getConnection_calls w' = getConnection_calls w
     \<and> createPool_calls w' = createPool_calls w"
  by (auto simp: prim_defs rotations_def split: option.splits)

lemma refreshPool_try_frame:
  "refreshPool_try env w m = (r, w', m') \<Longrightarrow>
     rotations w' = rotations w \<and> timers w' = timers w \<and> timers_created w' = timers_created w
     \<and> query_calls w' = query_calls w \<and> getConnection_calls w' = getConnection_calls w
     \<and> createPool_calls w \<le> createPool_calls w'
     \<and> tokenRefreshInterval m' = tokenRefreshInterval m"
  by (auto simp: refreshPool_try_def console_log_def split: if_splits option.splits sum.splits prod.splits
      dest!: generateAuthToken_frame createPool_frame driver_end_frame)

lemma refreshPool_frame:
  "refreshPool env w m = (r, w', m') \<Longrightarrow>
     rotations w' = Suc (rotations w) \<and> timers w' = timers w \<and> timers_created w' = timers_created w
     \<and> query_calls w' = query_calls w \<and> getConnection_calls w' = getConnection_calls w
     \<and> createPool_calls w \<le> createPool_calls w'
     \<and> tokenRefreshInterval m' = tokenRefreshInterval m"
  by (auto simp: refreshPool_def console_log_def console_error_def split: sum.splits prod.splits
      dest!: refreshPool_try_frame)


lemma isTokenExpired_frame:
  "isTokenExpired env w m = (b, w') \<Longrightarrow>
     rotations w' = rotations w \<and> timers w' = timers w \<and> timers_created w' = timers_created w
     \<and> query_calls w' = query_calls w \<and> getConnection_calls w' = getConnection_calls w
     \<and> createPool_calls w' = createPool_calls w \<and> signer_calls w' = signer_calls w"
  by (auto simp: isTokenExpired_def date_now_def rotations_def emit_def Let_def split: option.splits if_splits)

lemma refreshPool_Inr_pool:
  "refreshPool env w m = (Inr u, w', m') \<Longrightarrow>
     \<exists>p'. pool m' = Some p' \<and> createPool_calls w \<le> pool_id p'"
  by (auto simp: refreshPool_def refreshPool_try_def console_log_def
      split: sum.splits prod.splits option.splits
      dest!: generateAuthToken_frame createPool_Inr driver_end_frame)











subsection \<open>The outcomes of a rotation\<close>

lemmas method_defs = initialize_def initialize_try_def createPool_def construct_pool_def
  generateAuthToken_def refreshPool_def refreshPool_try_def refresh_tick_def isTokenExpired_def
  getConnection_def query_def shutdown_def console_log_def console_error_def

lemma refreshPool_end_fails:
  assumes "pool m = Some p" and "getAuthToken env (signer_calls w) = Inr tok"
      and "pool_end env (end_calls w) p = Some e"
  shows "refreshPool env w m =
           (Inl e,
            w\<lparr>trace := trace w @
                 [ConsoleLog ''Refreshing connection pool...'',
                  ConsoleLog ''Generating new RDS IAM authentication token...'',
                  SignerGetAuthToken, DateNow,
                  ConsoleLog ''New token generated, expires at:'',
                  ConsoleLog ''Closing old connection pool...'',
                  PoolEnd p,
                  ConsoleError ''Error refreshing connection pool:'' e],
              signer_calls := Suc (signer_calls w),
              clock_reads := Suc (clock_reads w),
              end_calls := Suc (end_calls w)\<rparr>,
            m\<lparr>currentToken := Some tok,
              tokenExpiryTime := Some (int (Date_now env (clock_reads w)) + 840000)\<rparr>)"
  using assms by (simp add: method_defs prim_defs)

lemma refreshPool_create_fails:
  assumes "pool m = Some p" and "getAuthToken env (signer_calls w) = Inr tok" and "tok \<noteq> []"
      and "pool_end env (end_calls w) p = None"
      and "mysql_createPool env (createPool_calls w)
             (if iam_enabled env then \<lparr>password = Some tok, authPlugins = Some tok\<rparr>
              else \<lparr>password = DB_PWD env, authPlugins = None\<rparr>) = Some e"
  shows "refreshPool env w m =
           (Inl e,
            w\<lparr>trace := trace w @
                 [ConsoleLog ''Refreshing connection pool...'',
                  ConsoleLog ''Generating new RDS IAM authentication token...'',
                  SignerGetAuthToken, DateNow,
                  ConsoleLog ''New token generated, expires at:'',
                  ConsoleLog ''Closing old connection pool...'',
                  PoolEnd p,
                  ConsoleLog ''Creating new connection pool...'',
                  MysqlCreatePool
                    (if iam_enabled env then \<lparr>password = Some tok, authPlugins = Some tok\<rparr>
                     else \<lparr>password = DB_PWD env, authPlugins = None\<rparr>),
                  ConsoleError ''Error refreshing connection pool:'' e],
              signer_calls := Suc (signer_calls w),
              clock_reads := Suc (clock_reads w),
              end_calls := Suc (end_calls w),
              createPool_calls := Suc (createPool_calls w),
              ended := ended w @ [p]\<rparr>,
            m\<lparr>currentToken := Some tok,
              tokenExpiryTime := Some (int (Date_now env (clock_reads w)) + 840000)\<rparr>)"
  using assms by (cases "iam_enabled env") (simp_all add: method_defs prim_defs)

lemma refreshPool_succeeds:
  assumes "pool m = Some p" and "getAuthToken env (signer_calls w) = Inr tok" and "tok \<noteq> []"
      and "pool_end env (end_calls w) p = None"
      and "mysql_createPool env (createPool_calls w)
             (if iam_enabled env then \<lparr>password = Some tok, authPlugins = Some tok\<rparr>
              else \<lparr>password = DB_PWD env, authPlugins = None\<rparr>) = None"
      and "p' = \<lparr>pool_id = createPool_calls w,
                  options = (if iam_enabled env then \<lparr>password = Some tok, authPlugins = Some tok\<rparr>
                             else \<lparr>password = DB_PWD env, authPlugins = None\<rparr>)\<rparr>"
  shows "refreshPool env w m =
           (Inr (),
            w\<lparr>trace := trace w @
                 [ConsoleLog ''Refreshing connection pool...'',
                  ConsoleLog ''Generating new RDS IAM authentication token...'',
                  SignerGetAuthToken, DateNow,
                  ConsoleLog ''New token generated, expires at:'',
                  ConsoleLog ''Closing old connection pool...'',
                  PoolEnd p,
                  ConsoleLog ''Creating new connection pool...'',
                  MysqlCreatePool (options p'),
                  PoolOn p' ''acquire'', PoolOn p' ''release'', PoolOn p' ''enqueue'',
                  ConsoleLog ''Connection pool refreshed successfully''],
              signer_calls := Suc (signer_calls w),
              clock_reads := Suc (clock_reads w),
              end_calls := Suc (end_calls w),
              createPool_calls := Suc (createPool_calls w),
              ended := ended w @ [p]\<rparr>,
            m\<lparr>currentToken := Some tok,
              tokenExpiryTime := Some (int (Date_now env (clock_reads w)) + 840000),
              pool := Some p'\<rparr>)"
  using assms by (cases "iam_enabled env") (simp_all add: method_defs prim_defs)

lemma refreshPool_create_after_end:
  assumes "pool m = Some p" and "refreshPool env w m = (r, w', m')"
      and "MysqlCreatePool opts \<in> set (drop (length (trace w)) (trace w'))"
  shows "precedes (PoolEnd p) (MysqlCreatePool opts) (drop (length (trace w)) (trace w'))
         \<and> pool_end env (end_calls w) p = None \<and> p \<in> set (ended w')"
  using assms
  by (auto simp: method_defs prim_defs precedes_def split: sum.splits option.splits if_splits)


text \<open>A rotation that runs its stretches with nothing in between is \<open>refreshPool\<close>.\<close>

lemma rotation_steps_refreshPool:
  "interleave env [0, 0, 0] ((w, m), [Start]) =
     (snd (refreshPool env w m), [Finished (fst (refreshPool env w m))])"
  by (auto simp: refreshPool_def refreshPool_try_def generateAuthToken_def rotation_install_def
      signer_getAuthToken_def date_now_def driver_end_def Let_def
      split: sum.splits prod.splits option.splits)

subsection \<open>The credential invariant, step by step\<close>

lemma generateAuthToken_manager:
  "generateAuthToken env w m = (r, w', m') \<Longrightarrow>
     (case r of
        Inl e \<Rightarrow> m' = m
      | Inr tok \<Rightarrow> getAuthToken env (signer_calls w) = Inr tok \<and> pool m' = pool m \<and> currentToken m' = Some tok)"
  by (auto simp: generateAuthToken_def prim_defs console_log_def split: sum.splits)

lemma createPool_manager:
  assumes "\<forall>n opts. mysql_createPool env n opts = None"
      and "\<forall>n. getAuthToken env n \<noteq> Inr []"
      and "createPool env w m token = (r, w', m')"
      and "iam_enabled env"
      and "\<forall>t. token = Some t \<longrightarrow> currentToken m = Some t"
  shows "case r of
           Inl e \<Rightarrow> m' = m
         | Inr p \<Rightarrow> pool m' = pool m \<and> currentToken m' = password (options p)
                    \<and> currentToken m' \<noteq> None"
  using assms
  by (auto simp: createPool_def construct_pool_def prim_defs console_log_def
      split: sum.splits prod.splits option.splits if_splits
      dest!: generateAuthToken_manager)

lemma createPool_with_token:
  assumes "createPool env w m (Some t) = (r, w', m')"
      and "\<forall>n opts. mysql_createPool env n opts = None"
      and "iam_enabled env" and "t \<noteq> []"
  shows "m' = m \<and> (\<exists>p. r = Inr p \<and> password (options p) = Some t)"
  using assms
  by (auto simp: createPool_def construct_pool_def prim_defs console_log_def)

lemma credential_invariant_upd [simp]:
  "credential_invariant env (m\<lparr>tokenRefreshInterval := h\<rparr>) = credential_invariant env m"
  "credential_invariant env (m\<lparr>pool := None\<rparr>)"
  by (auto simp: credential_invariant_def split: option.splits)

lemma refreshPool_invariant:
  assumes "\<forall>n opts. mysql_createPool env n opts = None"
      and "\<forall>n p. pool_end env n p = None"
      and "\<forall>n. getAuthToken env n \<noteq> Inr []"
      and "refreshPool env w m = (r, w', m')"
      and "credential_invariant env m"
  shows "credential_invariant env m'"
proof (cases "iam_enabled env")
  case False
  then show ?thesis by (simp add: credential_invariant_def split: option.splits)
next
  case True
  obtain r0 w0 m0 where g: "generateAuthToken env (console_log ''Refreshing connection pool...'' w) m = (r0, w0, m0)"
    by (cases "generateAuthToken env (console_log ''Refreshing connection pool...'' w) m")
  show ?thesis
  proof (cases r0)
    case (Inl e)
    with g have "m0 = m" by (auto dest!: generateAuthToken_manager)
    with g Inl assms(4) have "m' = m"
      by (simp add: refreshPool_def refreshPool_try_def)
    with assms(5) show ?thesis by simp
  next
    case (Inr tok)
    with g assms(3) have tok: "tok \<noteq> []" "pool m0 = pool m" "currentToken m0 = Some tok"
      by (auto dest!: generateAuthToken_manager)
    have "\<exists>w1. (case pool m0 of None \<Rightarrow> (None, w0)
           | Some p \<Rightarrow> driver_end env (console_log ''Closing old connection pool...'' w0) p) = (None, w1)"
      using assms(2) by (simp add: driver_end_def Let_def split: option.splits)
    then obtain w1 where e: "(case pool m0 of None \<Rightarrow> (None, w0)
           | Some p \<Rightarrow> driver_end env (console_log ''Closing old connection pool...'' w0) p) = (None, w1)"
      by blast
    obtain r2 w2 m2 where c: "createPool env w1 m0 (Some tok) = (r2, w2, m2)"
      by (cases "createPool env w1 m0 (Some tok)")
    from createPool_with_token [OF c assms(1) True tok(1)]
    obtain p' where p': "m2 = m0" "r2 = Inr p'" "password (options p') = Some tok"
      by blast
    from g Inr e c p' assms(4) have "m' = m0\<lparr>pool := Some p'\<rparr>"
      by (simp add: refreshPool_def refreshPool_try_def)
    with tok p' show ?thesis by (simp add: credential_invariant_def)
  qed
qed

lemma initialize_invariant:
  assumes "\<forall>n opts. mysql_createPool env n opts = None"
      and "\<forall>n. getAuthToken env n \<noteq> Inr []"
      and "initialize env w m = (r, w', m')"
      and "credential_invariant env m"
  shows "credential_invariant env m'"
proof (cases "iam_enabled env")
  case False
  then show ?thesis by (simp add: credential_invariant_def split: option.splits)
next
  case True
  with assms show ?thesis
    by (auto simp: initialize_def initialize_try_def Let_def credential_invariant_def
        split: sum.splits prod.splits option.splits
        dest!: createPool_manager [rotated 2])
qed


lemma gate_invariant:
  assumes "\<forall>n opts. mysql_createPool env n opts = None"
      and "\<forall>n p. pool_end env n p = None"
      and "\<forall>n. getAuthToken env n \<noteq> Inr []"
      and "credential_invariant env m"
  shows "credential_invariant env (snd (snd (getConnection env w m)))"
    and "credential_invariant env (snd (snd (query env w m sql params)))"
  using assms
  by (auto simp: getConnection_def query_def
      split: sum.splits prod.splits option.splits bool.splits
      dest: refreshPool_invariant)

lemma shutdown_invariant:
  "credential_invariant env m \<Longrightarrow> credential_invariant env (snd (snd (shutdown env w m)))"
  by (auto simp: shutdown_def Let_def credential_invariant_def split: option.splits prod.splits)

lemma refresh_tick_invariant:
  assumes "\<forall>n opts. mysql_createPool env n opts = None"
      and "\<forall>n p. pool_end env n p = None"
      and "\<forall>n. getAuthToken env n \<noteq> Inr []"
      and "credential_invariant env m"
  shows "credential_invariant env (snd (snd (refresh_tick env w m)))"
  using assms
  by (auto simp: refresh_tick_def split: sum.splits prod.splits dest: refreshPool_invariant)

lemma perform_invariant:
  assumes "\<forall>n opts. mysql_createPool env n opts = None"
      and "\<forall>n p. pool_end env n p = None"
      and "\<forall>n. getAuthToken env n \<noteq> Inr []"
      and "credential_invariant env m"
  shows "credential_invariant env (snd (perform env c (w, m)))"
proof (cases c)
  case Initialize
  then show ?thesis
    using initialize_invariant [OF assms(1) assms(3) _ assms(4), of w]
    by (cases "initialize env w m") simp
next
  case RefreshPool
  then show ?thesis
    using refreshPool_invariant [OF assms(1-3) _ assms(4), of w]
    by (cases "refreshPool env w m") simp
next
  case Tick
  then show ?thesis using refresh_tick_invariant [OF assms] by simp
next
  case GetConnection
  then show ?thesis using gate_invariant(1) [OF assms] by simp
next
  case (Query sql params)
  then show ?thesis using gate_invariant(2) [OF assms] by simp
next
  case Shutdown
  then show ?thesis using shutdown_invariant [OF assms(4)] by simp
qed

lemma run_invariant:
  assumes "\<forall>n opts. mysql_createPool env n opts = None"
      and "\<forall>n p. pool_end env n p = None"
      and "\<forall>n. getAuthToken env n \<noteq> Inr []"
  shows "credential_invariant env (snd s) \<Longrightarrow> credential_invariant env (snd (run env cs s))"
proof (induction cs arbitrary: s)
  case Nil
  then show ?case by simp
next
  case (Cons c cs)
  obtain w m where s: "s = (w, m)" by (cases s)
  with Cons.prems have "credential_invariant env (snd (perform env c s))"
    using perform_invariant [OF assms] by simp
  from Cons.IH [OF this] show ?case by simp
qed

subsection \<open>An example deployment, checked\<close>

lemmas demo_defs = demo_env_def demo_pool_def demo_world_def demo_manager_def
  password_env_def password_pool_def world0_def constructor_def iam_enabled_def


lemma password_initialize:
  "snd (snd (initialize password_env world0 constructor)) =
     \<lparr>pool = Some password_pool, tokenRefreshInterval = None,
      currentToken = None, tokenExpiryTime = None\<rparr>"
  by (simp add: method_defs prim_defs demo_defs)

section \<open>The claims\<close>

subsection \<open>C1: order of close and create in a rotation\<close>

text \<open>
  C1, as the code has it. In a rotation on a manager that holds a pool, the old pool is
  closed before the new one is constructed: whenever the rotation calls
  \<open>mysql.createPool\<close>, the \<open>end()\<close> of the old pool was called earlier in the same
  rotation and had resolved. A failure of that \<open>end()\<close> is logged by
  \<open>console.error\<close> and thrown again: the rotation fails with that error, no pool is
  constructed, and the manager keeps the old pool handle next to the new token. When
  closing and constructing both succeed, the new pool is constructed with the new token
  and installed.
\<close>

theorem rotation_closes_old_pool_before_creating:
  assumes "pool m = Some p" and "refreshPool env w m = (r, w', m')"
  shows "(\<forall>opts. MysqlCreatePool opts \<in> set (drop (length (trace w)) (trace w')) \<longrightarrow>
            precedes (PoolEnd p) (MysqlCreatePool opts) (drop (length (trace w)) (trace w'))
            \<and> pool_end env (end_calls w) p = None \<and> p \<in> set (ended w'))
       \<and> (\<forall>tok e. getAuthToken env (signer_calls w) = Inr tok
                   \<and> pool_end env (end_calls w) p = Some e \<longrightarrow>
            r = Inl e
            \<and> last (trace w') = ConsoleError ''Error refreshing connection pool:'' e
            \<and> createPool_calls w' = createPool_calls w
            \<and> ended w' = ended w
            \<and> m' = m\<lparr>currentToken := Some tok,
                      tokenExpiryTime := Some (int (Date_now env (clock_reads w)) + 840000)\<rparr>)
       \<and> (\<forall>tok. iam_enabled env \<and> getAuthToken env (signer_calls w) = Inr tok \<and> tok \<noteq> []
                 \<and> pool_end env (end_calls w) p = None
                 \<and> mysql_createPool env (createPool_calls w)
                      \<lparr>password = Some tok, authPlugins = Some tok\<rparr> = None \<longrightarrow>
            r = Inr ()
            \<and> ended w' = ended w @ [p]
            \<and> m' = m\<lparr>currentToken := Some tok,
                      tokenExpiryTime := Some (int (Date_now env (clock_reads w)) + 840000),
                      pool := Some \<lparr>pool_id = createPool_calls w,
                                    options = \<lparr>password = Some tok, authPlugins = Some tok\<rparr>\<rparr>\<rparr>)"
proof -
  have a: "\<forall>opts. MysqlCreatePool opts \<in> set (drop (length (trace w)) (trace w')) \<longrightarrow>
            precedes (PoolEnd p) (MysqlCreatePool opts) (drop (length (trace w)) (trace w'))
            \<and> pool_end env (end_calls w) p = None \<and> p \<in> set (ended w')"
    using refreshPool_create_after_end [OF assms] by blast
  have b: "\<forall>tok e. getAuthToken env (signer_calls w) = Inr tok
                   \<and> pool_end env (end_calls w) p = Some e \<longrightarrow>
            r = Inl e
            \<and> last (trace w') = ConsoleError ''Error refreshing connection pool:'' e
            \<and> createPool_calls w' = createPool_calls w
            \<and> ended w' = ended w
            \<and> m' = m\<lparr>currentToken := Some tok,
                      tokenExpiryTime := Some (int (Date_now env (clock_reads w)) + 840000)\<rparr>"
    using assms by (auto simp: refreshPool_end_fails)
  have c: "\<forall>tok. iam_enabled env \<and> getAuthToken env (signer_calls w) = Inr tok \<and> tok \<noteq> []
                 \<and> pool_end env (end_calls w) p = None
                 \<and> mysql_createPool env (createPool_calls w)
                      \<lparr>password = Some tok, authPlugins = Some tok\<rparr> = None \<longrightarrow>
            r = Inr ()
            \<and> ended w' = ended w @ [p]
            \<and> m' = m\<lparr>currentToken := Some tok,
                      tokenExpiryTime := Some (int (Date_now env (clock_reads w)) + 840000),
                      pool := Some \<lparr>pool_id = createPool_calls w,
                                    options = \<lparr>password = Some tok, authPlugins = Some tok\<rparr>\<rparr>\<rparr>"
    using assms by (auto simp: refreshPool_succeeds)
  from a b c show ?thesis by blast
qed

text \<open>
  The theorem at the example deployment: a rotation after \<open>initialize\<close>, once with
  every collaborator succeeding and once with a failing \<open>end()\<close>.
\<close>

theorem rotation_closes_old_pool_before_creating_witness:
  "pool demo_manager = Some demo_pool
   \<and> precedes (PoolEnd demo_pool)
        (MysqlCreatePool \<lparr>password = Some ''token-1'', authPlugins = Some ''token-1''\<rparr>)
        (drop (length (trace demo_world))
           (trace (fst (snd (refreshPool demo_env demo_world demo_manager)))))
   \<and> fst (refreshPool demo_env demo_world demo_manager) = Inr ()
   \<and> pool (snd (snd (refreshPool demo_env demo_world demo_manager))) =
       Some \<lparr>pool_id = 1, options = \<lparr>password = Some ''token-1'', authPlugins = Some ''token-1''\<rparr>\<rparr>
   \<and> fst (refreshPool (demo_env\<lparr>pool_end := (\<lambda>n p. Some (Error ''end failed''))\<rparr>)
             demo_world demo_manager) = Inl (Error ''end failed'')"
proof -
  obtain r w' m' where ok: "refreshPool demo_env demo_world demo_manager = (r, w', m')"
    by (cases "refreshPool demo_env demo_world demo_manager")
  obtain r2 w2 m2 where bad:
    "refreshPool (demo_env\<lparr>pool_end := (\<lambda>n p. Some (Error ''end failed''))\<rparr>)
       demo_world demo_manager = (r2, w2, m2)"
    by (cases "refreshPool (demo_env\<lparr>pool_end := (\<lambda>n p. Some (Error ''end failed''))\<rparr>)
                 demo_world demo_manager")
  have p: "pool demo_manager = Some demo_pool" by (simp add: demo_defs)
  have ev: "MysqlCreatePool \<lparr>password = Some ''token-1'', authPlugins = Some ''token-1''\<rparr>
              \<in> set (drop (length (trace demo_world)) (trace w'))"
    using ok by (simp add: method_defs prim_defs demo_defs, auto)
  note A = rotation_closes_old_pool_before_creating [OF p ok]
  note B = rotation_closes_old_pool_before_creating [OF p bad]
  have a1: "precedes (PoolEnd demo_pool)
        (MysqlCreatePool \<lparr>password = Some ''token-1'', authPlugins = Some ''token-1''\<rparr>)
        (drop (length (trace demo_world)) (trace w'))"
    using A [THEN conjunct1, rule_format, OF ev] by simp
  have a3: "r = Inr () \<and> pool m' =
       Some \<lparr>pool_id = 1, options = \<lparr>password = Some ''token-1'', authPlugins = Some ''token-1''\<rparr>\<rparr>"
    using A [THEN conjunct2, THEN conjunct2, rule_format, of "''token-1''"]
    by (simp add: demo_defs)
  have b2: "r2 = Inl (Error ''end failed'')"
    using B [THEN conjunct2, THEN conjunct1, rule_format, of "''token-1''" "Error ''end failed''"]
    by (simp add: demo_defs)
  from p a1 a3 b2 show ?thesis by (simp add: ok bad)
qed

text \<open>
  C1 as the specification states it fails at the example deployment: the construction
  of the new pool does not come before the close of the old one but after it, and with
  a failing \<open>end()\<close> the rotation itself fails.
\<close>

theorem rotation_create_before_close_counterexample:
  "\<not> precedes
       (MysqlCreatePool \<lparr>password = Some ''token-1'', authPlugins = Some ''token-1''\<rparr>)
       (PoolEnd demo_pool)
       (drop (length (trace demo_world))
          (trace (fst (snd (refreshPool demo_env demo_world demo_manager)))))
   \<and> precedes (PoolEnd demo_pool)
       (MysqlCreatePool \<lparr>password = Some ''token-1'', authPlugins = Some ''token-1''\<rparr>)
       (drop (length (trace demo_world))
          (trace (fst (snd (refreshPool demo_env demo_world demo_manager)))))
   \<and> fst (refreshPool (demo_env\<lparr>pool_end := (\<lambda>n p. Some (Error ''end failed''))\<rparr>)
             demo_world demo_manager) = Inl (Error ''end failed'')"
  by (simp add: method_defs prim_defs demo_defs precedes_def)

subsection \<open>C2: the credential invariant\<close>

text \<open>
  C2, as the code has it. Start from the constructor and make any sequence of
  \<open>initialize\<close>, rotation (direct or by a timer tick), \<open>query\<close>,
  \<open>getConnection\<close> and \<open>shutdown\<close> calls one after another, each call completed
  before the next one starts. If during the run the driver never fails to construct a
  pool nor to close one, and the signing service never returns an empty token (it may
  fail), then the state the calls leave behind satisfies the invariant: with IAM
  authentication, a manager that holds a pool holds a token, and that token is the one the
  pool was constructed with. Calls that overlap in time are not covered, and neither are
  the states inside a call.
\<close>

theorem credential_invariant_reachable:
  assumes "\<forall>n opts. mysql_createPool env n opts = None"
      and "\<forall>n p. pool_end env n p = None"
      and "\<forall>n. getAuthToken env n \<noteq> Inr []"
  shows "credential_invariant env (snd (run env cs (world0, constructor)))"
  using run_invariant [OF assms, of "(world0, constructor)" cs]
  by (simp add: credential_invariant_def constructor_def)

text \<open>
  The theorem at the example deployment, for \<open>initialize\<close> followed by a rotation and
  a query; the manager then holds the second pool and the second token.
\<close>

theorem credential_invariant_reachable_witness:
  "(\<forall>n opts. mysql_createPool demo_env n opts = None)
   \<and> (\<forall>n p. pool_end demo_env n p = None)
   \<and> (\<forall>n. getAuthToken demo_env n \<noteq> Inr [])
   \<and> iam_enabled demo_env
   \<and> pool (snd (run demo_env [Initialize, RefreshPool, Query ''SELECT 1'' []] (world0, constructor))) =
       Some \<lparr>pool_id = 1, options = \<lparr>password = Some ''token-1'', authPlugins = Some ''token-1''\<rparr>\<rparr>
   \<and> credential_invariant demo_env
        (snd (run demo_env [Initialize, RefreshPool, Query ''SELECT 1'' []] (world0, constructor)))"
proof -
  have h1: "\<forall>n opts. mysql_createPool demo_env n opts = None" by (simp add: demo_env_def)
  have h2: "\<forall>n p. pool_end demo_env n p = None" by (simp add: demo_env_def)
  have h3: "\<forall>n. getAuthToken demo_env n \<noteq> Inr []" by (simp add: demo_env_def)
  have i: "iam_enabled demo_env" by (simp add: demo_defs)
  have p: "pool (snd (run demo_env [Initialize, RefreshPool, Query ''SELECT 1'' []] (world0, constructor))) =
       Some \<lparr>pool_id = 1, options = \<lparr>password = Some ''token-1'', authPlugins = Some ''token-1''\<rparr>\<rparr>"
    by (simp add: method_defs prim_defs demo_defs)
  from credential_invariant_reachable [OF h1 h2 h3] h1 h2 h3 i p show ?thesis by blast
qed

text \<open>
  C2 as the specification states it fails, in four ways. In the example deployment with
  a driver whose \<open>end()\<close> rejects, \<open>initialize\<close> followed by one rotation leaves the
  manager with the pool constructed with \<open>token-0\<close> and with \<open>token-1\<close> as its
  current token. The same run breaks the invariant with a driver that refuses to construct
  a second pool, and with a signer that returns an empty token and then denies the
  request. And with no collaborator failing, the two overlapping rotations of
  \<open>two_rotations\<close> both succeed and leave the manager with a pool constructed with
  \<open>token-1\<close> and with \<open>token-2\<close> as its current token.
\<close>

theorem credential_invariant_counterexample:
  "iam_enabled (demo_env\<lparr>pool_end := (\<lambda>n p. Some (Error ''end failed''))\<rparr>)
   \<and> pool (snd (run (demo_env\<lparr>pool_end := (\<lambda>n p. Some (Error ''end failed''))\<rparr>)
                  [Initialize, RefreshPool] (world0, constructor))) = Some demo_pool
   \<and> password (options demo_pool) = Some ''token-0''
   \<and> currentToken (snd (run (demo_env\<lparr>pool_end := (\<lambda>n p. Some (Error ''end failed''))\<rparr>)
                          [Initialize, RefreshPool] (world0, constructor))) = Some ''token-1''
   \<and> \<not> credential_invariant (demo_env\<lparr>pool_end := (\<lambda>n p. Some (Error ''end failed''))\<rparr>)
         (snd (run (demo_env\<lparr>pool_end := (\<lambda>n p. Some (Error ''end failed''))\<rparr>)
                 [Initialize, RefreshPool] (world0, constructor)))
   \<and> \<not> credential_invariant
         (demo_env\<lparr>mysql_createPool :=
                     (\<lambda>n opts. if n = 0 then None else Some (Error ''create failed''))\<rparr>)
         (snd (run (demo_env\<lparr>mysql_createPool :=
                               (\<lambda>n opts. if n = 0 then None else Some (Error ''create failed''))\<rparr>)
                 [Initialize, RefreshPool] (world0, constructor)))
   \<and> \<not> credential_invariant
         (demo_env\<lparr>getAuthToken :=
                     (\<lambda>n. if n = 0 then Inr ''token-0'' else if n = 1 then Inr []
                          else Inl (Error ''AccessDenied''))\<rparr>)
         (snd (run (demo_env\<lparr>getAuthToken :=
                               (\<lambda>n. if n = 0 then Inr ''token-0'' else if n = 1 then Inr []
                                    else Inl (Error ''AccessDenied''))\<rparr>)
                 [Initialize, RefreshPool] (world0, constructor)))
   \<and> iam_enabled three_token_env
   \<and> run three_token_env [Initialize] (world0, constructor) = (demo_world, demo_manager)
   \<and> snd two_rotations = [Finished (Inr ()), Finished (Inr ())]
   \<and> pool (snd (fst two_rotations)) =
       Some \<lparr>pool_id = 2, options = \<lparr>password = Some ''token-1'', authPlugins = Some ''token-1''\<rparr>\<rparr>
   \<and> currentToken (snd (fst two_rotations)) = Some ''token-2''
   \<and> \<not> credential_invariant three_token_env (snd (fst two_rotations))"
  by (simp add: method_defs prim_defs demo_defs credential_invariant_def rotation_install_def
      three_token_env_def two_rotations_def)

subsection \<open>C3: a failing signing call\<close>

text \<open>
  C3. If the signing call of a rotation fails, the rotation fails with the signer's
  error and the manager is unchanged: same pool, same token, same expiry. Outside, the
  rotation has only logged and called the signer; no pool was closed or constructed.
\<close>

theorem rotation_aborts_when_signing_fails:
  assumes "getAuthToken env (signer_calls w) = Inl e"
  shows "refreshPool env w m =
     (Inl e,
      w\<lparr>trace := trace w @ [ConsoleLog ''Refreshing connection pool...'',
                              ConsoleLog ''Generating new RDS IAM authentication token...'',
                              SignerGetAuthToken,
                              ConsoleError ''Error refreshing connection pool:'' e],
        signer_calls := Suc (signer_calls w)\<rparr>,
      m)"
  using assms
  by (simp add: refreshPool_def refreshPool_try_def generateAuthToken_def console_log_def
      console_error_def signer_getAuthToken_def emit_def)

text \<open>The theorem at the example deployment after \<open>initialize\<close>, with a signer that
  now denies the request.\<close>

theorem rotation_aborts_when_signing_fails_witness:
  "getAuthToken (demo_env\<lparr>getAuthToken := (\<lambda>n. Inl (Error ''AccessDenied''))\<rparr>)
     (signer_calls demo_world) = Inl (Error ''AccessDenied'')
   \<and> fst (refreshPool (demo_env\<lparr>getAuthToken := (\<lambda>n. Inl (Error ''AccessDenied''))\<rparr>)
            demo_world demo_manager) = Inl (Error ''AccessDenied'')
   \<and> snd (snd (refreshPool (demo_env\<lparr>getAuthToken := (\<lambda>n. Inl (Error ''AccessDenied''))\<rparr>)
                 demo_world demo_manager)) = demo_manager
   \<and> ended (fst (snd (refreshPool (demo_env\<lparr>getAuthToken := (\<lambda>n. Inl (Error ''AccessDenied''))\<rparr>)
                        demo_world demo_manager))) = []
   \<and> createPool_calls
        (fst (snd (refreshPool (demo_env\<lparr>getAuthToken := (\<lambda>n. Inl (Error ''AccessDenied''))\<rparr>)
                     demo_world demo_manager))) = createPool_calls demo_world"
  using rotation_aborts_when_signing_fails
          [of "demo_env\<lparr>getAuthToken := (\<lambda>n. Inl (Error ''AccessDenied''))\<rparr>"
              demo_world "Error ''AccessDenied''" demo_manager]
  by (simp add: demo_world_def)

subsection \<open>C4: a failing pool construction\<close>

text \<open>
  C4, as the code has it. If, in a rotation on a manager that holds a pool, the token is
  acquired and the old pool is closed but \<open>mysql.createPool\<close> throws, then the driver's
  error reaches the caller of the rotation as it is, the manager still holds the handle
  of the old pool, which has been closed, and the stored token and expiry are those of the
  newly acquired credential.
\<close>

theorem failed_pool_creation_after_close:
  assumes "pool m = Some p" and "getAuthToken env (signer_calls w) = Inr tok" and "tok \<noteq> []"
      and "pool_end env (end_calls w) p = None"
      and "mysql_createPool env (createPool_calls w)
             (if iam_enabled env then \<lparr>password = Some tok, authPlugins = Some tok\<rparr>
              else \<lparr>password = DB_PWD env, authPlugins = None\<rparr>) = Some e"
  shows "fst (refreshPool env w m) = Inl e
       \<and> snd (snd (refreshPool env w m)) =
           m\<lparr>currentToken := Some tok,
             tokenExpiryTime := Some (int (Date_now env (clock_reads w)) + 840000)\<rparr>
       \<and> pool (snd (snd (refreshPool env w m))) = Some p
       \<and> ended (fst (snd (refreshPool env w m))) = ended w @ [p]
       \<and> last (trace (fst (snd (refreshPool env w m)))) =
           ConsoleError ''Error refreshing connection pool:'' e"
  using assms by (simp add: refreshPool_create_fails)

text \<open>The theorem at the example deployment after \<open>initialize\<close>, with a driver that
  now refuses to construct a pool.\<close>

theorem failed_pool_creation_after_close_witness:
  "pool demo_manager = Some demo_pool
   \<and> getAuthToken (demo_env\<lparr>mysql_createPool := (\<lambda>n opts. Some (Error ''create failed''))\<rparr>)
       (signer_calls demo_world) = Inr ''token-1''
   \<and> fst (refreshPool (demo_env\<lparr>mysql_createPool := (\<lambda>n opts. Some (Error ''create failed''))\<rparr>)
            demo_world demo_manager) = Inl (Error ''create failed'')
   \<and> pool (snd (snd (refreshPool
                      (demo_env\<lparr>mysql_createPool := (\<lambda>n opts. Some (Error ''create failed''))\<rparr>)
                      demo_world demo_manager))) = Some demo_pool
   \<and> ended (fst (snd (refreshPool
                       (demo_env\<lparr>mysql_createPool := (\<lambda>n opts. Some (Error ''create failed''))\<rparr>)
                       demo_world demo_manager))) = [demo_pool]"
  using failed_pool_creation_after_close
          [of demo_manager demo_pool
              "demo_env\<lparr>mysql_createPool := (\<lambda>n opts. Some (Error ''create failed''))\<rparr>"
              demo_world "''token-1''" "Error ''create failed''"]
  by (simp add: demo_defs)

text \<open>
  C4 as the specification states it fails at the same input: after the failed rotation
  the manager is not the one before it (it holds \<open>token-1\<close>), and the pool it still
  holds is among the ended pools.
\<close>

theorem failed_pool_creation_counterexample:
  "fst (refreshPool (demo_env\<lparr>mysql_createPool := (\<lambda>n opts. Some (Error ''create failed''))\<rparr>)
          demo_world demo_manager) = Inl (Error ''create failed'')
   \<and> snd (snd (refreshPool (demo_env\<lparr>mysql_createPool := (\<lambda>n opts. Some (Error ''create failed''))\<rparr>)
                 demo_world demo_manager)) \<noteq> demo_manager
   \<and> currentToken (snd (snd (refreshPool
                              (demo_env\<lparr>mysql_createPool := (\<lambda>n opts. Some (Error ''create failed''))\<rparr>)
                              demo_world demo_manager))) = Some ''token-1''
   \<and> pool (snd (snd (refreshPool
                      (demo_env\<lparr>mysql_createPool := (\<lambda>n opts. Some (Error ''create failed''))\<rparr>)
                      demo_world demo_manager))) = Some demo_pool
   \<and> demo_pool \<in> set (ended (fst (snd (refreshPool
                      (demo_env\<lparr>mysql_createPool := (\<lambda>n opts. Some (Error ''create failed''))\<rparr>)
                      demo_world demo_manager))))"
  by (simp add: method_defs prim_defs demo_defs)

subsection \<open>C5: one rotation for a query on an expired token\<close>

text \<open>
  C5. With IAM authentication, a \<open>query\<close> on a manager that holds a pool and whose
  token \<open>isTokenExpired\<close> reports as expired starts exactly one rotation. If that
  rotation succeeds, the query is then handed, as the last step, to the pool the manager
  holds after the rotation, a pool constructed during this call. If the rotation fails,
  its error is the result of the query and no pool is queried.
\<close>

theorem expired_query_rotates_once:
  assumes "iam_enabled env" and "pool m = Some p" and "isTokenExpired env w m = (True, w1)"
      and "refreshPool env (console_log ''Token expired, refreshing pool...'' w1) m = (rr, w2, m2)"
  shows "rotations (fst (snd (query env w m sql params))) = Suc (rotations w)
       \<and> (\<forall>e. rr = Inl e \<longrightarrow>
             query env w m sql params = (Inl e, w2, m2) \<and> query_calls w2 = query_calls w)
       \<and> (rr = Inr () \<longrightarrow>
            (\<exists>p2. pool m2 = Some p2 \<and> createPool_calls w \<le> pool_id p2 \<and>
               query env w m sql params =
                 (pool_query env (query_calls w) p2 sql params,
                  w2\<lparr>trace := trace w2 @ [PoolQuery p2 sql params],
                     query_calls := Suc (query_calls w)\<rparr>,
                  m2)))"
proof -
  from assms(3) have f1: "rotations w1 = rotations w" "query_calls w1 = query_calls w"
      "createPool_calls w1 = createPool_calls w"
    by (auto dest: isTokenExpired_frame)
  from assms(4) have f2: "rotations w2 = Suc (rotations w)" "query_calls w2 = query_calls w"
    using f1 by (auto dest!: refreshPool_frame simp: console_log_def)
  show ?thesis
  proof (cases rr)
    case (Inl e)
    then show ?thesis using assms f2 by (simp add: query_def)
  next
    case (Inr u)
    with assms(4) obtain p2 where p2: "pool m2 = Some p2" "createPool_calls w \<le> pool_id p2"
      using f1 by (auto dest!: refreshPool_Inr_pool simp: console_log_def)
    with Inr assms f2 show ?thesis
      by (simp add: query_def driver_query_def emit_def rotations_def)
  qed
qed

text \<open>
  The theorem at the example deployment a quarter of an hour after \<open>initialize\<close>: once
  with a signer that answers, once with one that denies the request.
\<close>

theorem expired_query_rotates_once_witness:
  "iam_enabled (demo_env\<lparr>Date_now := (\<lambda>n. 1700000900000)\<rparr>)
   \<and> pool demo_manager = Some demo_pool
   \<and> fst (isTokenExpired (demo_env\<lparr>Date_now := (\<lambda>n. 1700000900000)\<rparr>) demo_world demo_manager)
   \<and> rotations (fst (snd (query (demo_env\<lparr>Date_now := (\<lambda>n. 1700000900000)\<rparr>)
                             demo_world demo_manager ''SELECT 1'' []))) = Suc (rotations demo_world)
   \<and> fst (query (demo_env\<lparr>Date_now := (\<lambda>n. 1700000900000)\<rparr>)
            demo_world demo_manager ''SELECT 1'' []) = Inr [''row'']
   \<and> rotations (fst (snd (query (demo_env\<lparr>Date_now := (\<lambda>n. 1700000900000),
                                          getAuthToken := (\<lambda>n. Inl (Error ''AccessDenied''))\<rparr>)
                             demo_world demo_manager ''SELECT 1'' []))) = Suc (rotations demo_world)
   \<and> fst (query (demo_env\<lparr>Date_now := (\<lambda>n. 1700000900000),
                          getAuthToken := (\<lambda>n. Inl (Error ''AccessDenied''))\<rparr>)
            demo_world demo_manager ''SELECT 1'' []) = Inl (Error ''AccessDenied'')"
proof -
  define late where "late = demo_env\<lparr>Date_now := (\<lambda>n. 1700000900000)\<rparr>"
  define denied where "denied = demo_env\<lparr>Date_now := (\<lambda>n. 1700000900000),
                                         getAuthToken := (\<lambda>n. Inl (Error ''AccessDenied''))\<rparr>"
  define w1 where "w1 = emit DateNow (demo_world\<lparr>clock_reads := 2\<rparr>)"
  have i: "iam_enabled late" "iam_enabled denied"
    by (simp_all add: late_def denied_def demo_defs)
  have p: "pool demo_manager = Some demo_pool" by (simp add: demo_defs)
  have x: "isTokenExpired late demo_world demo_manager = (True, w1)"
          "isTokenExpired denied demo_world demo_manager = (True, w1)"
    by (simp_all add: late_def denied_def w1_def isTokenExpired_def date_now_def demo_defs)
  obtain rr w2 m2 where
    r: "refreshPool late (console_log ''Token expired, refreshing pool...'' w1) demo_manager = (rr, w2, m2)"
    by (cases "refreshPool late (console_log ''Token expired, refreshing pool...'' w1) demo_manager")
  obtain rr' w2' m2' where
    r': "refreshPool denied (console_log ''Token expired, refreshing pool...'' w1) demo_manager = (rr', w2', m2')"
    by (cases "refreshPool denied (console_log ''Token expired, refreshing pool...'' w1) demo_manager")
  have ok: "rr = Inr ()"
    using r by (simp add: late_def w1_def method_defs prim_defs demo_defs)
  have ko: "rr' = Inl (Error ''AccessDenied'')"
    using r' by (simp add: denied_def w1_def method_defs prim_defs demo_defs)
  note A = expired_query_rotates_once [OF i(1) p x(1) r, of "''SELECT 1''" "[]"]
  note B = expired_query_rotates_once [OF i(2) p x(2) r', of "''SELECT 1''" "[]"]
  have a: "fst (query late demo_world demo_manager ''SELECT 1'' []) = Inr [''row'']"
    using A ok by (auto simp: late_def demo_env_def)
  have b: "fst (query denied demo_world demo_manager ''SELECT 1'' []) = Inl (Error ''AccessDenied'')"
    using B ko by simp
  from A B a b i p x show ?thesis
    unfolding late_def denied_def by simp
qed

subsection \<open>C6: when a token counts as expired\<close>

text \<open>
  C6. \<open>isTokenExpired\<close> is true on a manager that has no expiry time. After
  \<open>generateAuthToken\<close> has succeeded with the clock at \<open>t0\<close>, the stored expiry time is
  \<open>t0\<close> plus 15 minutes minus the 1 minute margin; \<open>isTokenExpired\<close> is false while
  the clock still reads \<open>t0\<close>, and at a clock reading \<open>t\<close> it is true exactly when
  \<open>t\<close> has reached the expiry time minus 1 minute. (A clock reading is not negative,
  so the stored expiry time is never the number 0 that \<open>isTokenExpired\<close> treats as
  absent.)
\<close>

theorem token_expiry_window:
  assumes "generateAuthToken env w m = (Inr tok, w1, m1)"
      and "t0 = Date_now env (clock_reads w)" and "t = Date_now env' (clock_reads w')"
  shows "fst (isTokenExpired env' w' (m0\<lparr>tokenExpiryTime := None\<rparr>))
       \<and> tokenExpiryTime m1 = Some (int t0 + (15 * 60 * 1000 - 60 * 1000))
       \<and> (t = t0 \<longrightarrow> \<not> fst (isTokenExpired env' w' m1))
       \<and> fst (isTokenExpired env' w' m1) =
           (int t0 + (15 * 60 * 1000 - 60 * 1000) - 60 * 1000 \<le> int t)"
  using assms
  by (auto simp: generateAuthToken_def isTokenExpired_def prim_defs console_log_def
      split: sum.splits)

text \<open>
  The theorem at the example deployment: a first token generated at 1700000000000, and
  the check made at once, where the clock of the example has moved on by a second.
\<close>

theorem token_expiry_window_witness:
  "fst (generateAuthToken demo_env world0 constructor) = Inr ''token-0''
   \<and> fst (isTokenExpired demo_env world0 constructor)
   \<and> tokenExpiryTime (snd (snd (generateAuthToken demo_env world0 constructor))) =
       Some 1700000840000
   \<and> \<not> fst (isTokenExpired demo_env (fst (snd (generateAuthToken demo_env world0 constructor)))
              (snd (snd (generateAuthToken demo_env world0 constructor))))
   \<and> \<not> fst (isTokenExpired (demo_env\<lparr>Date_now := (\<lambda>n. 1700000000000)\<rparr>) world0
              (snd (snd (generateAuthToken demo_env world0 constructor))))"
proof -
  define w1 where "w1 = fst (snd (generateAuthToken demo_env world0 constructor))"
  define m1 where "m1 = snd (snd (generateAuthToken demo_env world0 constructor))"
  have g: "generateAuthToken demo_env world0 constructor = (Inr ''token-0'', w1, m1)"
    by (simp add: w1_def m1_def generateAuthToken_def prim_defs console_log_def demo_defs)
  have c: "clock_reads w1 = 1"
    by (simp add: w1_def generateAuthToken_def prim_defs console_log_def demo_defs)
  note A = token_expiry_window [OF g refl refl, of demo_env w1 constructor]
  note B = token_expiry_window [OF g refl refl, of "demo_env\<lparr>Date_now := (\<lambda>n. 1700000000000)\<rparr>"
                                   world0 constructor]
  have a: "\<not> fst (isTokenExpired demo_env w1 m1)"
    using A c by (simp add: demo_defs)
  have b: "\<not> fst (isTokenExpired (demo_env\<lparr>Date_now := (\<lambda>n. 1700000000000)\<rparr>) world0 m1)"
    using B by (simp add: demo_defs)
  note C = token_expiry_window [OF g refl refl, of demo_env world0 constructor]
  have n: "fst (isTokenExpired demo_env world0 constructor)"
    using C by (simp add: constructor_def)
  have e: "tokenExpiryTime m1 = Some 1700000840000"
    using A by (simp add: demo_defs)
  from g have f: "fst (generateAuthToken demo_env world0 constructor) = Inr ''token-0''"
    by simp
  from a b e have "\<not> fst (isTokenExpired demo_env (fst (snd (generateAuthToken demo_env world0 constructor)))
              (snd (snd (generateAuthToken demo_env world0 constructor))))
     \<and> \<not> fst (isTokenExpired (demo_env\<lparr>Date_now := (\<lambda>n. 1700000000000)\<rparr>) world0
              (snd (snd (generateAuthToken demo_env world0 constructor))))
     \<and> tokenExpiryTime (snd (snd (generateAuthToken demo_env world0 constructor))) =
         Some 1700000840000"
    unfolding w1_def m1_def by blast
  with f n show ?thesis by blast
qed

subsection \<open>C7: calls on a manager without a pool\<close>

text \<open>
  C7. On a manager that holds no pool, \<open>query\<close> and \<open>getConnection\<close> fail with the
  error \<open>Connection pool not initialized. Call initialize() first.\<close>; the outside world
  is left exactly as it was (no signing call, no rotation, no pool call, not even a log
  line) and so is the manager.
\<close>

theorem not_initialized_no_effect:
  assumes "pool m = None"
  shows "query env w m sql params = (Inl NotInitializedError, w, m)
       \<and> getConnection env w m = (Inl NotInitializedError, w, m)"
  using assms by (simp add: query_def getConnection_def)

text \<open>The theorem on the manager the constructor returns.\<close>

theorem not_initialized_no_effect_witness:
  "pool constructor = None
   \<and> query demo_env world0 constructor ''SELECT 1'' [] =
       (Inl (Error ''Connection pool not initialized. Call initialize() first.''),
        world0, constructor)
   \<and> getConnection demo_env world0 constructor =
       (Inl (Error ''Connection pool not initialized. Call initialize() first.''),
        world0, constructor)"
  using not_initialized_no_effect [of constructor demo_env world0 "''SELECT 1''" "[]"]
  by (simp add: constructor_def NotInitializedError_def)

subsection \<open>C8: shutdown\<close>

text \<open>
  C8, as the code has it. \<open>shutdown\<close> returns normally on a manager without a pool
  (never initialized, or already shut down) and whenever closing the pool succeeds; it
  then leaves the manager with no pool and no timer handle, and a second \<open>shutdown\<close>
  returns normally again and changes nothing. The refresh timer is cancelled before the
  pool is closed. If closing the pool fails, the error is thrown to the caller, with the
  timer already cancelled and the pool handle still in place.
\<close>

theorem shutdown_outcomes:
  "(pool m = None \<longrightarrow>
      fst (shutdown env w m) = Inr ()
      \<and> snd (snd (shutdown env w m)) = m\<lparr>tokenRefreshInterval := None\<rparr>
      \<and> end_calls (fst (snd (shutdown env w m))) = end_calls w)
   \<and> (pool m = Some p \<and> pool_end env (end_calls w) p = None \<longrightarrow>
        fst (shutdown env w m) = Inr ()
        \<and> snd (snd (shutdown env w m)) = m\<lparr>tokenRefreshInterval := None, pool := None\<rparr>
        \<and> ended (fst (snd (shutdown env w m))) = ended w @ [p])
   \<and> (pool m = Some p \<and> pool_end env (end_calls w) p = Some e \<longrightarrow>
        fst (shutdown env w m) = Inl e
        \<and> snd (snd (shutdown env w m)) = m\<lparr>tokenRefreshInterval := None\<rparr>)
   \<and> (pool m = Some p \<and> tokenRefreshInterval m = Some h \<longrightarrow>
        take 3 (drop (length (trace w)) (trace (fst (snd (shutdown env w m))))) =
          [ConsoleLog ''Shutting down RDS IAM Auth Manager...'', ClearInterval h, PoolEnd p]
        \<and> h \<notin> fst ` set (timers (fst (snd (shutdown env w m)))))
   \<and> (fst (shutdown env w m) = Inr () \<longrightarrow>
        pool (snd (snd (shutdown env w m))) = None
        \<and> tokenRefreshInterval (snd (snd (shutdown env w m))) = None
        \<and> fst (shutdown env' w' (snd (snd (shutdown env w m)))) = Inr ()
        \<and> snd (snd (shutdown env' w' (snd (snd (shutdown env w m))))) =
            snd (snd (shutdown env w m)))"
  by (auto simp: shutdown_def prim_defs console_log_def split: option.splits)

text \<open>
  The theorem at the example deployment: \<open>shutdown\<close> on the manager the constructor
  returns, after \<open>initialize\<close>, a second time, and with a driver whose \<open>end()\<close>
  rejects.
\<close>

theorem shutdown_outcomes_witness:
  "pool constructor = None
   \<and> fst (shutdown demo_env world0 constructor) = Inr ()
   \<and> pool demo_manager = Some demo_pool \<and> tokenRefreshInterval demo_manager = Some 0
   \<and> pool_end demo_env (end_calls demo_world) demo_pool = None
   \<and> fst (shutdown demo_env demo_world demo_manager) = Inr ()
   \<and> snd (snd (shutdown demo_env demo_world demo_manager)) =
       demo_manager\<lparr>tokenRefreshInterval := None, pool := None\<rparr>
   \<and> take 3 (drop (length (trace demo_world))
               (trace (fst (snd (shutdown demo_env demo_world demo_manager))))) =
       [ConsoleLog ''Shutting down RDS IAM Auth Manager...'', ClearInterval 0, PoolEnd demo_pool]
   \<and> fst (shutdown demo_env (fst (snd (shutdown demo_env demo_world demo_manager)))
            (snd (snd (shutdown demo_env demo_world demo_manager)))) = Inr ()
   \<and> fst (shutdown (demo_env\<lparr>pool_end := (\<lambda>n p. Some (Error ''end failed''))\<rparr>)
            demo_world demo_manager) = Inl (Error ''end failed'')"
proof -
  have p: "pool demo_manager = Some demo_pool" "tokenRefreshInterval demo_manager = Some 0"
          "pool constructor = None"
          "pool_end demo_env (end_calls demo_world) demo_pool = None"
          "pool_end (demo_env\<lparr>pool_end := (\<lambda>n p. Some (Error ''end failed''))\<rparr>)
             (end_calls demo_world) demo_pool = Some (Error ''end failed'')"
    by (simp_all add: demo_defs)
  note A = shutdown_outcomes [where m = constructor and env = demo_env and w = world0
             and p = demo_pool and e = "Error ''end failed''" and h = 0
             and env' = demo_env and w' = world0]
  note B = shutdown_outcomes [where m = demo_manager and env = demo_env and w = demo_world
             and p = demo_pool and e = "Error ''end failed''" and h = 0 and env' = demo_env
             and w' = "fst (snd (shutdown demo_env demo_world demo_manager))"]
  note C = shutdown_outcomes [where m = demo_manager
             and env = "demo_env\<lparr>pool_end := (\<lambda>n p. Some (Error ''end failed''))\<rparr>"
             and w = demo_world and p = demo_pool and e = "Error ''end failed''" and h = 0
             and env' = demo_env and w' = world0]
  from A p(3) have a: "fst (shutdown demo_env world0 constructor) = Inr ()" by blast
  from B p(1,2,4) have b: "fst (shutdown demo_env demo_world demo_manager) = Inr ()"
    "snd (snd (shutdown demo_env demo_world demo_manager)) =
       demo_manager\<lparr>tokenRefreshInterval := None, pool := None\<rparr>"
    "take 3 (drop (length (trace demo_world))
               (trace (fst (snd (shutdown demo_env demo_world demo_manager))))) =
       [ConsoleLog ''Shutting down RDS IAM Auth Manager...'', ClearInterval 0, PoolEnd demo_pool]"
    by blast+
  from B b(1) have b2: "fst (shutdown demo_env (fst (snd (shutdown demo_env demo_world demo_manager)))
            (snd (snd (shutdown demo_env demo_world demo_manager)))) = Inr ()"
    by blast
  from C p(1,5) have c: "fst (shutdown (demo_env\<lparr>pool_end := (\<lambda>n p. Some (Error ''end failed''))\<rparr>)
            demo_world demo_manager) = Inl (Error ''end failed'')"
    by blast
  from p a b b2 c show ?thesis by blast
qed

text \<open>
  C8 as the specification states it fails: with a driver whose \<open>end()\<close> rejects,
  \<open>shutdown\<close> after \<open>initialize\<close> throws that error and the manager still holds its
  pool.
\<close>

theorem shutdown_throws_counterexample:
  "fst (shutdown (demo_env\<lparr>pool_end := (\<lambda>n p. Some (Error ''end failed''))\<rparr>)
          demo_world demo_manager) = Inl (Error ''end failed'')
   \<and> pool (snd (snd (shutdown (demo_env\<lparr>pool_end := (\<lambda>n p. Some (Error ''end failed''))\<rparr>)
                      demo_world demo_manager))) = Some demo_pool"
  by (simp add: shutdown_def prim_defs console_log_def demo_defs)

subsection \<open>C9: the refresh scheduler\<close>



subsection \<open>C10: password mode never rotates\<close>

text \<open>
  C10. Without IAM authentication, \<open>query\<close> and \<open>getConnection\<close> leave the manager
  as it is, whatever token and expiry time it stores; they make no signing call, read
  no clock (so \<open>isTokenExpired\<close> is not evaluated) and start no rotation. On a manager
  that holds a pool the only thing they do is hand the call to that pool.
\<close>

theorem password_mode_no_rotation:
  assumes "\<not> iam_enabled env"
  shows "snd (snd (query env w m sql params)) = m
       \<and> snd (snd (getConnection env w m)) = m
       \<and> signer_calls (fst (snd (query env w m sql params))) = signer_calls w
       \<and> signer_calls (fst (snd (getConnection env w m))) = signer_calls w
       \<and> clock_reads (fst (snd (query env w m sql params))) = clock_reads w
       \<and> clock_reads (fst (snd (getConnection env w m))) = clock_reads w
       \<and> rotations (fst (snd (query env w m sql params))) = rotations w
       \<and> rotations (fst (snd (getConnection env w m))) = rotations w
       \<and> (pool m = Some p \<longrightarrow>
            query env w m sql params =
              (pool_query env (query_calls w) p sql params,
               w\<lparr>trace := trace w @ [PoolQuery p sql params],
                 query_calls := Suc (query_calls w)\<rparr>,
               m)
            \<and> getConnection env w m =
              (pool_getConnection env (getConnection_calls w) p,
               w\<lparr>trace := trace w @ [PoolGetConnection p],
                 getConnection_calls := Suc (getConnection_calls w)\<rparr>,
               m))"
  using assms
  by (auto simp: query_def getConnection_def driver_query_def driver_getConnection_def
      emit_def rotations_def split: option.splits)

text \<open>
  The theorem at the password deployment, on a manager that holds the pool of
  \<open>initialize\<close> together with a stale token whose expiry time is long past.
\<close>

theorem password_mode_no_rotation_witness:
  "\<not> iam_enabled password_env
   \<and> query password_env world0
       \<lparr>pool = Some password_pool, tokenRefreshInterval = None,
        currentToken = Some ''stale'', tokenExpiryTime = Some 1\<rparr> ''SELECT 1'' [] =
       (Inr [''row''],
        world0\<lparr>trace := [PoolQuery password_pool ''SELECT 1'' []], query_calls := 1\<rparr>,
        \<lparr>pool = Some password_pool, tokenRefreshInterval = None,
         currentToken = Some ''stale'', tokenExpiryTime = Some 1\<rparr>)
   \<and> getConnection password_env world0
       \<lparr>pool = Some password_pool, tokenRefreshInterval = None,
        currentToken = Some ''stale'', tokenExpiryTime = Some 1\<rparr> =
       (Inr 1,
        world0\<lparr>trace := [PoolGetConnection password_pool], getConnection_calls := 1\<rparr>,
        \<lparr>pool = Some password_pool, tokenRefreshInterval = None,
         currentToken = Some ''stale'', tokenExpiryTime = Some 1\<rparr>)"
  using password_mode_no_rotation
          [of password_env world0
              "\<lparr>pool = Some password_pool, tokenRefreshInterval = None,
                currentToken = Some ''stale'', tokenExpiryTime = Some 1\<rparr>"
              "''SELECT 1''" "[]" password_pool]
  by (simp add: demo_defs)

end
